theory Spec2Isabelle
  imports Complex_Main
begin

section \<open>Common data: errors and tensors\<close>

text \<open>
  The Python exceptions the two attackers raise, with the fixed part of their message.
  Float values are modelled as rationals: the properties below concern comparisons,
  sums and integer conversion, not rounding.
\<close>

datatype error =
    RuntimeError string
  | ValueError string
  | TypeError string
  | AssertionError string
  | ZeroDivisionError
  | IndexError string
  | AttributeError string

text \<open>
  A torch tensor: its shape and its elements in row-major order. A tensor of shape
  \<open>[n, f]\<close> holds \<open>n\<close> rows of \<open>f\<close> elements.
\<close>

datatype tensor = Tensor (shape: "nat list") (elems: "rat list")

definition numel :: "tensor \<Rightarrow> nat" where
  "numel t = length (elems t)"

text \<open>\<^verbatim>\<open>t.min()\<close> and \<open>t.max()\<close> raise on a tensor without elements.\<close>

definition tensor_min :: "tensor \<Rightarrow> error + rat" where
  "tensor_min t =
     (case elems t of [] \<Rightarrow> Inl (RuntimeError ''min(): empty tensor'')
      | x # xs \<Rightarrow> Inr (fold min xs x))"

definition tensor_max :: "tensor \<Rightarrow> error + rat" where
  "tensor_max t =
     (case elems t of [] \<Rightarrow> Inl (RuntimeError ''max(): empty tensor'')
      | x # xs \<Rightarrow> Inr (fold max xs x))"

text \<open>\<^verbatim>\<open>t.bool().sum()\<close>: the number of nonzero elements.\<close>

definition count_nonzero :: "tensor \<Rightarrow> nat" where
  "count_nonzero t = length (filter (\<lambda>v. v \<noteq> 0) (elems t))"

text \<open>\<^verbatim>\<open>feat.new_zeros(*shape)\<close>.\<close>

definition new_zeros :: "nat list \<Rightarrow> tensor" where
  "new_zeros s = Tensor s (replicate (prod_list s) 0)"

text \<open>
  \<^verbatim>\<open>t[idx] = v\<close> with an index tensor \<open>idx\<close>: advanced indexing along the FIRST
  dimension. Every index must be below the size of that dimension (IndexError otherwise);
  the whole slice at each index is filled with \<open>v\<close>.
\<close>

definition fill_slice :: "nat \<Rightarrow> nat \<Rightarrow> rat \<Rightarrow> rat list \<Rightarrow> rat list" where
  "fill_slice sz i v xs = take (i * sz) xs @ replicate sz v @ drop (i * sz + sz) xs"

definition index_put :: "tensor \<Rightarrow> nat list \<Rightarrow> rat \<Rightarrow> error + tensor" where
  "index_put t idx v =
     (case shape t of
        [] \<Rightarrow> Inl (IndexError ''too many indices for tensor of dimension 0'')
      | n # rest \<Rightarrow>
          if \<exists>i \<in> set idx. n \<le> i then Inl (IndexError ''index out of range'')
          else Inr (Tensor (shape t) (fold (\<lambda>i xs. fill_slice (prod_list rest) i v xs) idx (elems t))))"

text \<open>
  \<^verbatim>\<open>torch.stack(ts, dim=0)\<close>: all tensors must have the same shape; the result has
  one more leading dimension.
\<close>

definition stack :: "tensor list \<Rightarrow> error + tensor" where
  "stack ts =
     (case ts of
        [] \<Rightarrow> Inl (RuntimeError ''stack expects a non-empty TensorList'')
      | t # rest \<Rightarrow>
          if \<forall>u \<in> set rest. shape u = shape t
          then Inr (Tensor (length ts # shape t) (concat (map elems ts)))
          else Inl (RuntimeError ''stack expects each tensor to be equal size''))"

text \<open>
  \<^verbatim>\<open>torch.cat([a, b], dim=0)\<close>, where the second entry may be \<open>None\<close> (an accessor
  returned it): \<open>torch.cat\<close> accepts tensors only and raises TypeError on \<open>None\<close>; tensors
  must agree in all dimensions but the first.
\<close>

definition cat0 :: "tensor \<Rightarrow> tensor option \<Rightarrow> error + tensor" where
  "cat0 a b =
     (case b of
        None \<Rightarrow> Inl (TypeError ''expected Tensor as element 1 in argument 0, but got NoneType'')
      | Some b' \<Rightarrow>
          (case (shape a, shape b') of
             (n # sa, m # sb) \<Rightarrow>
               if sa = sb then Inr (Tensor ((n + m) # sa) (elems a @ elems b'))
               else Inl (RuntimeError ''Sizes of tensors must match except in dimension 0'')
           | _ \<Rightarrow> Inl (RuntimeError ''zero-dimensional tensor cannot be concatenated'')))"

section \<open>InjectionAttacker (graphwar/attack/injection/injection\_attacker.py)\<close>

subsection \<open>Arguments and state\<close>

text \<open>\<open>num_budgets: Union[int, float]\<close>.\<close>

datatype budget_arg = IntBudget int | FloatBudget rat

text \<open>\<open>targets\<close>: a boolean mask or node indices.\<close>

datatype targets_arg = BoolMask "bool list" | NodeIndices "int list"

text \<open>
  \<open>feat_limits: Optional[Union[tuple, dict]]\<close>. A dict keeps its insertion order and
  may hold \<open>None\<close> values; \<open>OtherLimits\<close> stands for an object of any other type.
\<close>

datatype limits_arg =
    TupleLimits "rat option" "rat option"
  | DictLimits "(string \<times> rat option) list"
  | OtherLimits

text \<open>The PyG-like graph: feature matrix and edge index (sources, destinations).\<close>

datatype graph_data = Data (data_x: tensor) (data_edge_index: "int list \<times> int list")

text \<open>
  The attributes of an \<open>InjectionAttacker\<close>. Attributes written \<open>_name\<close> in the source
  are \<open>priv_name\<close> here. \<open>obj_id\<close> is the identity of the object, by which it is
  hashed and compared.
\<close>

record injection_attacker =
  obj_id :: nat
  priv_is_setup :: bool
  priv_is_reset :: bool
  ori_data :: graph_data
  num_nodes :: nat
  num_feats :: nat
  feat :: "tensor option"
  priv_degree :: "rat list"
  targets :: "int list"
  num_budgets :: "int option"
  feat_limits :: "(rat \<times> rat) option"
  feat_budgets :: "int option"
  num_edges_global :: "int option"
  num_edges_local :: "int option"
  priv_mu :: rat
  priv_sigma :: rat
  priv_injected_nodes :: "int list"
  priv_injected_edges :: "((int \<times> int) \<times> int option) list"
  priv_injected_feats :: "tensor list"

text \<open>
  The way \<open>data\<close> is called: \<open>data()\<close>, \<open>data(s)\<close> or \<open>data(symmetric=s)\<close>; without an
  argument \<open>symmetric\<close> is \<open>True\<close>.
\<close>

datatype call_form = NoArgument | Positional bool | Keyword bool

fun symmetric_of :: "call_form \<Rightarrow> bool" where
  "symmetric_of NoArgument = True"
| "symmetric_of (Positional s) = s"
| "symmetric_of (Keyword s) = s"

text \<open>
  The cache of \<^verbatim>\<open>@lru_cache(maxsize=1)\<close> on \<open>data\<close>. The decorator wraps the function
  of the class, so there is one cache for all attackers; its only entry holds the key of
  the last call that returned, which is the attacker and the arguments in the form they
  were passed, and the graph that call returned.
\<close>

type_synonym lru_cache = "(nat \<times> call_form \<times> graph_data) option"

subsection \<open>reset\<close>

text \<open>
  Modelled from the spec: \<^verbatim>\<open>super().reset()\<close> is \<open>Attacker.reset\<close>, which is not among
  the source files. The base reset marks the attacker as reset (the state that the
  check "attack invoked before reset" reads).
\<close>

definition attacker_reset :: "injection_attacker \<Rightarrow> injection_attacker" where
  "attacker_reset self = self\<lparr>priv_is_reset := True\<rparr>"

text \<open>
  Lines 44-63. \<open>reset\<close> returns the attacker and the cache of \<open>data\<close>, which
  \<^verbatim>\<open>self.data.cache_clear()\<close> empties.
\<close>

definition reset :: "injection_attacker \<Rightarrow> lru_cache \<Rightarrow> injection_attacker \<times> lru_cache" where
  "reset self cache =
     ((attacker_reset self)\<lparr>
        num_budgets := None,
        feat_limits := None,
        feat_budgets := None,
        num_edges_global := None,
        num_edges_local := None,
        priv_injected_nodes := [],
        priv_injected_edges := [],
        priv_injected_feats := []\<rparr>,
      None)"

subsection \<open>attack\<close>

text \<open>
  Modelled from the spec: \<open>Attacker._check_budget\<close> is not among the source files.
  The spec's \<open>resolveBudget(spec, maxPerturbations)\<close>: an integer is returned unchanged
  after checking \<open>0 < spec \<le> maxPerturbations\<close>; a fraction in \<open>(0,1]\<close> is multiplied
  by \<open>maxPerturbations\<close> and rounded down, with a floor of 1; anything else fails.
\<close>

definition check_budget :: "budget_arg \<Rightarrow> nat \<Rightarrow> error + int" where
  "check_budget b max_perturbations =
     (case b of
        IntBudget n \<Rightarrow>
          if 0 < n \<and> n \<le> int max_perturbations then Inr n
          else Inl (ValueError ''num_budgets out of range'')
      | FloatBudget r \<Rightarrow>
          if 0 < r \<and> r \<le> 1 then Inr (max 1 \<lfloor>r * of_nat max_perturbations\<rfloor>)
          else Inl (ValueError ''num_budgets out of range''))"

text \<open>Lines 115-123: the target nodes.\<close>

definition resolve_targets :: "nat \<Rightarrow> targets_arg option \<Rightarrow> int list" where
  "resolve_targets n tg =
     (case tg of
        None \<Rightarrow> map int [0..<n]
      | Some (BoolMask m) \<Rightarrow> map int (filter (\<lambda>i. m ! i) [0..<length m])
      | Some (NodeIndices is) \<Rightarrow> is)"

text \<open>
  Lines 129-137: the number of edges of each injected node. \<open>//\<close> is floor division and
  raises on a zero divisor; \<open>int(...)\<close> of the clamped mean truncates, and the mean of an
  empty degree vector is NaN, which \<open>int\<close> refuses.
\<close>

definition resolve_num_edges_local ::
  "int list \<Rightarrow> rat list \<Rightarrow> int option \<Rightarrow> int option \<Rightarrow> error + int" where
  "resolve_num_edges_local tgs degree num_edges_global' num_edges_local' =
     (case (case num_edges_global' of
              None \<Rightarrow> Inr num_edges_local'
            | Some g \<Rightarrow>
                if length tgs = 0 then Inl ZeroDivisionError
                else if g div int (length tgs) = 0
                then Inl (ValueError ''Too less edges allowed for injected nodes'')
                else Inr (Some (g div int (length tgs)))) of
        Inl e \<Rightarrow> Inl e
      | Inr (Some l) \<Rightarrow> Inr l
      | Inr None \<Rightarrow>
          if degree = [] then Inl (ValueError ''cannot convert float NaN to integer'')
          else Inr \<lfloor>max 1 (sum_list degree / of_nat (length degree))\<rfloor>)"

text \<open>\<^verbatim>\<open>d.pop(key, None)\<close>: the value (or \<open>None\<close>) and the dict without the key.\<close>

definition dict_pop ::
  "string \<Rightarrow> (string \<times> rat option) list \<Rightarrow> rat option \<times> (string \<times> rat option) list" where
  "dict_pop k d =
     ((case map_of d k of None \<Rightarrow> None | Some v \<Rightarrow> v), filter (\<lambda>kv. fst kv \<noteq> k) d)"

text \<open>
  Lines 150-161: \<open>min_limits\<close> and \<open>max_limits\<close> read from \<open>feat_limits\<close>, together
  with the caller's \<open>feat_limits\<close> object after the statement: \<open>pop\<close> removes the keys
  from the dict the caller passed, also when the ValueError follows.
\<close>

definition unpack_feat_limits ::
  "limits_arg option \<Rightarrow> (error + rat option \<times> rat option) \<times> limits_arg option" where
  "unpack_feat_limits fl =
     (case fl of
        None \<Rightarrow> (Inr (None, None), None)
      | Some (TupleLimits mn mx) \<Rightarrow> (Inr (mn, mx), fl)
      | Some (DictLimits d) \<Rightarrow>
          (let (min_limits, d1) = dict_pop ''min'' d;
               (max_limits, d2) = dict_pop ''max'' d1
           in if d2 \<noteq> []
              then (Inl (ValueError (''Unrecognized key '' @ fst (hd d2))), Some (DictLimits d2))
              else (Inr (min_limits, max_limits), Some (DictLimits d2)))
      | Some OtherLimits \<Rightarrow>
          (Inl (TypeError ''feat_limits should be an instance of tuple and dict''), fl))"

text \<open>
  Lines 163-174: the bounds in force. After \<^verbatim>\<open>assert feat is not None\<close> the test
  \<open>feat is not None\<close> is true, so each \<open>if\<close> takes the observed extreme when the bound
  is \<open>None\<close> and the constant of its \<open>else\<close> branch otherwise.
\<close>

definition resolve_min_limits :: "rat option \<Rightarrow> tensor \<Rightarrow> error + rat" where
  "resolve_min_limits min_limits ft =
     (if min_limits = None then tensor_min ft else Inr 0)"

definition resolve_max_limits :: "rat option \<Rightarrow> tensor \<Rightarrow> error + rat" where
  "resolve_max_limits max_limits ft =
     (if max_limits = None then tensor_max ft else Inr 1)"

text \<open>
  \<open>attack\<close> returns the attacker (or the exception raised) and the caller's
  \<open>feat_limits\<close> object as the call leaves it.
\<close>

definition attack ::
  "injection_attacker \<Rightarrow> budget_arg \<Rightarrow> targets_arg option \<Rightarrow> int option \<Rightarrow> int option \<Rightarrow>
   limits_arg option \<Rightarrow> int option \<Rightarrow> (error + injection_attacker) \<times> limits_arg option" where
  "attack self num_budgets' targets' num_edges_global' num_edges_local' feat_limits' feat_budgets' =
     (if \<not> priv_is_setup self
      then (Inl (RuntimeError ''requires a surrogate model to conduct attack''), feat_limits')
      else if \<not> priv_is_reset self
      then (Inl (RuntimeError ''Before calling attack, you must reset your attacker''), feat_limits')
      else case check_budget num_budgets' (num_nodes self) of
        Inl e \<Rightarrow> (Inl e, feat_limits')
      | Inr nb \<Rightarrow>
         (let tgs = resolve_targets (num_nodes self) targets' in
          if num_edges_local' \<noteq> None \<and> num_edges_global' \<noteq> None
          then (Inl (RuntimeError
                  ''Both num_edges_local and num_edges_global cannot be used simultaneously''),
                feat_limits')
          else
           (case resolve_num_edges_local tgs (priv_degree self)
                   num_edges_global' num_edges_local' of
              Inl e \<Rightarrow> (Inl e, feat_limits')
            | Inr nel \<Rightarrow>
             if feat_limits' \<noteq> None \<and> feat_budgets' \<noteq> None
             then (Inl (RuntimeError
                     ''Both feat_limits and feat_budgets cannot be used simultaneously''),
                   feat_limits')
             else
              (case unpack_feat_limits feat_limits' of
                 (Inl e, fl) \<Rightarrow> (Inl e, fl)
               | (Inr (min_limits, max_limits), fl) \<Rightarrow>
                (case feat self of
                   None \<Rightarrow> (Inl (AssertionError ''feat is not None''), fl)
                 | Some ft \<Rightarrow>
                    (case resolve_min_limits min_limits ft of
                       Inl e \<Rightarrow> (Inl e, fl)
                     | Inr mn \<Rightarrow>
                        (case resolve_max_limits max_limits ft of
                           Inl e \<Rightarrow> (Inl e, fl)
                         | Inr mx \<Rightarrow>
                            if (case feat_budgets' of
                                  None \<Rightarrow> False
                                | Some fb \<Rightarrow> \<not> fb \<le> int (num_feats self))
                            then (Inl (AssertionError ''feat_budgets <= self.num_feats''), fl)
                            else
                              (let mu = (mx - mn) / 2 in
                               (Inr (self\<lparr>
                                  targets := tgs,
                                  num_budgets := Some nb,
                                  num_edges_global := num_edges_global',
                                  num_edges_local := Some nel,
                                  feat_budgets := feat_budgets',
                                  priv_mu := mu,
                                  priv_sigma := (mx - mu) / 3,
                                  feat_limits := Some (mn, mx),
                                  priv_is_reset := False\<rparr>), fl)))))))))"

subsection \<open>Accessors\<close>

text \<open>Lines 192-204. The list of injected nodes as a tensor, \<open>None\<close> when it is empty.\<close>

definition injected_nodes :: "injection_attacker \<Rightarrow> int list option" where
  "injected_nodes self =
     (let nodes = priv_injected_nodes self in
      if length nodes = 0 then None else Some nodes)"

text \<open>
  Lines 210-222. The keys of the edge dict, transposed into (sources, destinations);
  \<open>None\<close> when the dict is empty.
\<close>

definition injected_edges :: "injection_attacker \<Rightarrow> (int list \<times> int list) option" where
  "injected_edges self =
     (let edges = priv_injected_edges self in
      if length edges = 0 then None
      else Some (map (fst \<circ> fst) edges, map (snd \<circ> fst) edges))"

text \<open>Lines 228-234. The injected features stacked along a new first dimension.\<close>

definition injected_feats :: "injection_attacker \<Rightarrow> error + tensor option" where
  "injected_feats self =
     (let feats = priv_injected_feats self in
      if length feats = 0 then Inr None
      else case stack feats of Inl e \<Rightarrow> Inl e | Inr t \<Rightarrow> Inr (Some t))"

subsection \<open>inject\_node and inject\_edge\<close>

text \<open>
  Lines 240-261. The random draws are arguments: \<open>perm\<close> is the result of
  \<^verbatim>\<open>torch.randperm(self.num_feats)\<close> and \<open>unif\<close> the values \<open>uniform_\<close> writes.
  \<^verbatim>\<open>self.feat.new_zeros(1, self.num_feats)\<close> is a tensor of shape \<open>[1, num_feats]\<close>,
  and \<^verbatim>\<open>feat[idx] = 1.0\<close> indexes its first dimension.
\<close>

definition inject_node ::
  "injection_attacker \<Rightarrow> nat list \<Rightarrow> rat list \<Rightarrow> int \<Rightarrow> tensor option \<Rightarrow>
   error + injection_attacker" where
  "inject_node self perm unif node feat' =
     (case
        (case feat' of
           None \<Rightarrow>
             (case feat self of
                None \<Rightarrow> Inl (AttributeError ''NoneType object has no attribute new_zeros'')
              | Some _ \<Rightarrow>
                 (case feat_budgets self of
                    Some fb \<Rightarrow>
                      (let ft = new_zeros [1, num_feats self];
                           idx = (if 0 \<le> fb then take (nat fb) perm
                                  else take (length perm - nat (- fb)) perm)
                       in index_put ft idx 1)
                  | None \<Rightarrow>
                      (case feat_limits self of
                         None \<Rightarrow> Inl (TypeError ''argument after * must be an iterable, not NoneType'')
                       | Some (lo, hi) \<Rightarrow>
                           if hi < lo then Inl (RuntimeError ''uniform_ expects from <= to'')
                           else Inr (Tensor [num_feats self] (take (num_feats self) unif)))))
         | Some ft \<Rightarrow>
             (case feat_budgets self of
                Some fb \<Rightarrow>
                  if int (count_nonzero ft) \<le> fb then Inr ft
                  else Inl (AssertionError ''feat.bool().sum() <= self.feat_budgets'')
              | None \<Rightarrow>
                  (case feat_limits self of
                     None \<Rightarrow> Inl (TypeError ''NoneType object is not subscriptable'')
                   | Some (lo, hi) \<Rightarrow>
                      (case tensor_min ft of
                         Inl e \<Rightarrow> Inl e
                       | Inr m \<Rightarrow>
                          if \<not> lo \<le> m then Inl (AssertionError ''feat.min() >= self.feat_limits[0]'')
                          else (case tensor_max ft of
                                  Inl e \<Rightarrow> Inl e
                                | Inr M \<Rightarrow>
                                   if \<not> M \<le> hi
                                   then Inl (AssertionError ''feat.max() <= self.feat_limits[1]'')
                                   else Inr ft))))) of
        Inl e \<Rightarrow> Inl e
      | Inr ft \<Rightarrow>
          Inr (self\<lparr>priv_injected_nodes := priv_injected_nodes self @ [node],
                    priv_injected_feats := priv_injected_feats self @ [ft]\<rparr>))"

text \<open>Line 276: \<^verbatim>\<open>self._injected_edges[(u, v)] = it\<close>; an existing key keeps its place.\<close>

definition inject_edge :: "injection_attacker \<Rightarrow> int \<Rightarrow> int \<Rightarrow> int option \<Rightarrow> injection_attacker" where
  "inject_edge self u v it =
     self\<lparr>priv_injected_edges :=
       (if (u, v) \<in> fst ` set (priv_injected_edges self)
        then map (\<lambda>kv. if fst kv = (u, v) then ((u, v), it) else kv) (priv_injected_edges self)
        else priv_injected_edges self @ [((u, v), it)])\<rparr>"

subsection \<open>data\<close>

text \<open>
  Lines 278-300. \<open>add_edges\<close> comes from \<open>graphwar.utils\<close>, which is not among the source
  files; it is the parameter \<open>add_edges\<close>. \<open>data\<close> returns the graph (or the exception)
  and the cache: a call with the key of the cached entry returns the stored graph; any
  other call computes the graph and, when it returns, replaces the entry; a call that
  raises leaves the cache as it is.
\<close>

definition data ::
  "(int list \<times> int list \<Rightarrow> (int list \<times> int list) option \<Rightarrow> bool \<Rightarrow> error + int list \<times> int list) \<Rightarrow>
   injection_attacker \<Rightarrow> lru_cache \<Rightarrow> call_form \<Rightarrow> (error + graph_data) \<times> lru_cache" where
  "data add_edges self cache form =
     (case (case cache of
              None \<Rightarrow> None
            | Some (i, f, g) \<Rightarrow> if i = obj_id self \<and> f = form then Some g else None) of
        Some g \<Rightarrow> (Inr g, cache)
      | None \<Rightarrow>
         (let d = ori_data self;
              injected_edges' = injected_edges self
          in case injected_feats self of
               Inl e \<Rightarrow> (Inl e, cache)
             | Inr injected_feats' \<Rightarrow>
                (case cat0 (data_x d) injected_feats' of
                   Inl e \<Rightarrow> (Inl e, cache)
                 | Inr x' \<Rightarrow>
                    (case add_edges (data_edge_index d) injected_edges' (symmetric_of form) of
                       Inl e \<Rightarrow> (Inl e, cache)
                     | Inr ei \<Rightarrow>
                        (Inr (Data x' ei), Some (obj_id self, form, Data x' ei))))))"

section \<open>PRBCDAttack (greatx/attack/targeted/rbcd\_attack.py)\<close>

subsection \<open>Float scalars\<close>

text \<open>
  A metric is a float that may be infinite or NaN: \<open>best_metric\<close> starts at
  \<^verbatim>\<open>float('-Inf')\<close>. \<open>fgt x y\<close> is Python's \<open>x > y\<close>, false whenever NaN is involved.
\<close>

datatype fval = NegInf | Fin rat | PosInf | NaN

fun fgt :: "fval \<Rightarrow> fval \<Rightarrow> bool" where
  "fgt NaN _ = False"
| "fgt _ NaN = False"
| "fgt NegInf _ = False"
| "fgt (Fin x) NegInf = True"
| "fgt (Fin x) (Fin y) = (y < x)"
| "fgt (Fin x) PosInf = False"
| "fgt PosInf PosInf = False"
| "fgt PosInf _ = True"

subsection \<open>Projection onto the budget\<close>

text \<open>\<^verbatim>\<open>torch.clamp(x, lo, hi)\<close> on one entry.\<close>

definition clip :: "rat \<Rightarrow> rat \<Rightarrow> rat \<Rightarrow> rat" where
  "clip lo hi x = min hi (max lo x)"

text \<open>The probability mass left after shifting every weight by \<open>mu\<close>: \<open>sum(clip(w - mu, 0, 1))\<close>.\<close>

definition shifted_mass :: "rat list \<Rightarrow> rat \<Rightarrow> rat" where
  "shifted_mass w mu = sum_list (map (\<lambda>x. clip 0 1 (x - mu)) w)"

text \<open>
  Modelled from the spec: \<open>project\<close> is imported from \<open>greatx.attack.untargeted.utils\<close>,
  which is not among the source files. The spec (4.4): \<open>project\<close> maps onto
  \<open>{w \<in> [0,1]^k : sum(w) \<le> budget}\<close> by a bisection search over a scalar shift \<open>mu\<close>
  such that \<open>sum(clip(w - mu, 0, 1)) = budget\<close>; the search ends when the width of the
  interval is below \<open>epsilon\<close> or a cap on the number of iterations is hit, and the
  result is \<open>clip(w - mu*, 0, 1)\<close>; when the mass is within the budget already no shift
  is needed and the search short-circuits at \<open>mu = 0\<close>.

  \<open>bisection n w budget eps a b mu\<close> runs at most \<open>n\<close> iterations on the interval
  \<open>[a, b]\<close>; \<open>mu\<close> is the last shift examined, which is what it returns. Each iteration
  examines the midpoint, returns it when it meets the budget exactly, and otherwise keeps
  the half in which the mass crosses the budget. The spec gives no value for the cap;
  \<open>max_iter\<close> fixes it at 1000. The search starts on \<open>[min(w) - 1, max(w)]\<close>, where the
  mass falls from \<open>k\<close> to \<open>0\<close>.
\<close>

fun bisection :: "nat \<Rightarrow> rat list \<Rightarrow> rat \<Rightarrow> rat \<Rightarrow> rat \<Rightarrow> rat \<Rightarrow> rat \<Rightarrow> rat" where
  "bisection 0 w budget eps a b mu = mu"
| "bisection (Suc n) w budget eps a b mu =
     (let miu = (a + b) / 2 in
      if shifted_mass w miu = budget then miu
      else if budget < shifted_mass w miu
           then (if b - miu < eps then miu else bisection n w budget eps miu b miu)
           else (if miu - a < eps then miu else bisection n w budget eps a miu miu))"

definition max_iter :: nat where
  "max_iter = 1000"

definition project :: "int \<Rightarrow> rat list \<Rightarrow> rat \<Rightarrow> rat list" where
  "project num_budgets' values eps =
     (if shifted_mass values 0 \<le> of_int num_budgets' then map (clip 0 1) values
      else
        (let left = (case values of [] \<Rightarrow> 0 | x # xs \<Rightarrow> fold min xs x) - 1;
             right = (case values of [] \<Rightarrow> 0 | x # xs \<Rightarrow> fold max xs x);
             miu = bisection max_iter values (of_int num_budgets') eps left right left
         in map (\<lambda>x. clip 0 1 (x - miu)) values))"

subsection \<open>State and collaborators\<close>

text \<open>
  What \<open>self.loss\<close> and \<open>self.metric\<close> can hold: one of the three functions imported from
  \<open>greatx.functional\<close>, a callable of the caller's (identified by a number), or, for
  \<open>metric\<close>, a string the caller passed.
\<close>

datatype py_fn =
    Masked_cross_entropy
  | Probability_margin_loss
  | Tanh_margin_loss
  | Callable nat
  | Str string

text \<open>The object passed as \<open>loss\<close>: a string, \<open>None\<close>, or a callable.\<close>

datatype loss_arg = LossStr string | LossNone | LossCallable nat

text \<open>\<open>self.coeffs\<close>, as far as this file reads it, and the keyword arguments that update it.\<close>

record coeffs_t =
  eps :: rat
  with_early_stopping :: bool

record kwargs_t =
  kw_eps :: "rat option"
  kw_with_early_stopping :: "bool option"

definition merge_kwargs :: "coeffs_t \<Rightarrow> kwargs_t \<Rightarrow> coeffs_t" where
  "merge_kwargs c kw =
     c\<lparr>eps := (case kw_eps kw of None \<Rightarrow> eps c | Some e \<Rightarrow> e),
       with_early_stopping :=
         (case kw_with_early_stopping kw of None \<Rightarrow> with_early_stopping c | Some b \<Rightarrow> b)\<rparr>"

text \<open>
  The block: \<open>current_block\<close> (linear indices), \<open>block_edge_index\<close> (sources,
  destinations) and \<open>block_edge_weight\<close>.
\<close>

type_synonym block_t = "int list \<times> (int list \<times> int list) \<times> rat list"

text \<open>One epoch's scalars, in the order the keys are inserted.\<close>

type_synonym scalars_t = "(string \<times> fval) list"

text \<open>
  The attributes of a \<open>PRBCDAttack\<close> this file reads or writes. The three block
  attributes are \<open>None\<close> after \<open>reset\<close>; the three \<open>best_*\<close> attributes do not exist
  until an epoch stores them (\<open>None\<close> here). \<open>num_budgets\<close> and \<open>target_label\<close> are set
  by \<open>TargetedAttacker.attack\<close>; the edge ledgers \<open>priv_added_edges\<close> and
  \<open>priv_removed_edges\<close> belong to the flip attacker.
\<close>

record prbcd =
  current_block :: "int list option"
  block_edge_index :: "(int list \<times> int list) option"
  block_edge_weight :: "rat list option"
  loss :: "py_fn option"
  metric :: "py_fn option"
  victim_nodes :: "int list option"
  victim_labels :: "int list option"
  edge_index :: "int list \<times> int list"
  priv_edge_index :: "int list \<times> int list"
  priv_edge_weight :: "rat list"
  best_metric :: fval
  best_block :: "int list option"
  best_edge_index :: "(int list \<times> int list) option"
  best_pert_edge_weight :: "rat list option"
  attack_statistics :: "scalars_t list"
  block_size :: int
  epochs_resampling :: int
  lr :: rat
  coeffs :: coeffs_t
  prbcd_num_budgets :: int
  target_label :: "int list"
  priv_added_edges :: "((int \<times> int) \<times> nat) list"
  priv_removed_edges :: "((int \<times> int) \<times> nat) list"

text \<open>The arguments of \<open>attack\<close>.\<close>

record attack_args =
  arg_target :: "int list"
  arg_target_label :: "int list option"
  arg_num_budgets :: "int option"
  arg_direct_attack :: bool
  arg_block_size :: int
  arg_epochs :: int
  arg_epochs_resampling :: int
  arg_loss :: loss_arg
  arg_metric :: "py_fn option"
  arg_lr :: rat
  arg_structure_attack :: bool
  arg_feature_attack :: bool
  arg_kwargs :: kwargs_t

text \<open>
  The methods and collaborators that are not among the source files, as parameters:
  \<^item> \<open>super_attack\<close>: \<open>TargetedAttacker.attack\<close>;
  \<^item> \<open>sample_random_block\<close>, \<open>resample_random_block\<close> (\<open>RBCDAttack\<close>): the new block
    for a budget; the first argument of \<open>resample_random_block\<close> is the epoch, which
    stands for the random draw of that call;
  \<^item> \<open>compute_gradients\<close> (\<open>RBCDAttack\<close>): the loss and its gradient with respect to
    the block's weights, or the classifier's failure;
  \<^item> \<open>update_edge_weights\<close> (\<open>RBCDAttack\<close>): budget, epoch, gradient and the current
    weights to the weights after the gradient step;
  \<^item> \<open>surrogate_metric\<close>: \<open>get_modified_graph\<close>, the surrogate's forward pass on the
    victim nodes and the call of a metric function on its prediction;
  \<^item> \<open>sample_final_edges\<close> (\<open>RBCDAttack\<close>): the flipped edges, one pair per column;
  \<^item> \<open>adjacency_matrix\<close>: the entry of the original adjacency matrix.
\<close>

record env =
  super_attack :: "prbcd \<Rightarrow> attack_args \<Rightarrow> error + prbcd"
  sample_random_block :: "int \<Rightarrow> block_t"
  resample_random_block :: "int \<Rightarrow> int \<Rightarrow> block_t \<Rightarrow> block_t"
  compute_gradients :: "prbcd \<Rightarrow> error + fval \<times> rat list"
  update_edge_weights :: "int \<Rightarrow> int \<Rightarrow> rat list \<Rightarrow> rat list \<Rightarrow> rat list"
  surrogate_metric :: "py_fn \<Rightarrow> int list \<times> int list \<Rightarrow> rat list \<Rightarrow> error + fval"
  sample_final_edges :: "prbcd \<Rightarrow> (int \<times> int) list"
  adjacency_matrix :: "int \<Rightarrow> int \<Rightarrow> rat"

subsection \<open>reset\<close>

text \<open>Lines 50-72. The base classes' \<open>reset\<close> is not among the source files.\<close>

definition prbcd_reset :: "prbcd \<Rightarrow> prbcd" where
  "prbcd_reset self =
     self\<lparr>current_block := None,
          block_edge_index := None,
          block_edge_weight := None,
          loss := None,
          metric := None,
          victim_nodes := None,
          victim_labels := None,
          priv_edge_index := edge_index self,
          priv_edge_weight := replicate (length (fst (edge_index self))) 1,
          best_metric := NegInf,
          attack_statistics := []\<rparr>"

subsection \<open>update\<close>

text \<open>
  \<^verbatim>\<open>torch.topk(w, k).indices\<close>: the positions of the \<open>k\<close> largest weights (among equal
  weights the earlier position first), and the 0/1 vector that is 1 exactly there.
\<close>

definition topk_indices :: "rat list \<Rightarrow> nat \<Rightarrow> nat list" where
  "topk_indices w k = take k (sort_key (\<lambda>i. - (w ! i)) [0..<length w])"

definition topk_mask :: "rat list \<Rightarrow> nat \<Rightarrow> rat list" where
  "topk_mask w k = map (\<lambda>i. if i \<in> set (topk_indices w k) then 1 else 0) [0..<length w]"

text \<open>\<^verbatim>\<open>t.max().item()\<close> of a vector; it raises on an empty one.\<close>

definition vec_max :: "rat list \<Rightarrow> error + rat" where
  "vec_max w =
     (case w of [] \<Rightarrow> Inl (RuntimeError ''max(): empty tensor'')
      | x # xs \<Rightarrow> Inr (fold max xs x))"

text \<open>Lines 184-191: the monitoring scalars of the update and the projection.\<close>

definition monitoring :: "rat list \<Rightarrow> rat list \<Rightarrow> rat \<Rightarrow> error + scalars_t" where
  "monitoring pmass_update w eps' =
     (case vec_max pmass_update of
        Inl e \<Rightarrow> Inl e
      | Inr pm \<Rightarrow>
         (case vec_max w of
            Inl e \<Rightarrow> Inl e
          | Inr wm \<Rightarrow>
             Inr [(''prob_mass_after_update'', Fin (sum_list pmass_update)),
                  (''prob_mass_after_update_max'', Fin pm),
                  (''prob_mass_afterprojection'', Fin (sum_list w)),
                  (''prob_mass_afterprojection_nonzero_weights'',
                     Fin (of_nat (length (filter (\<lambda>x. eps' < x) w)))),
                  (''prob_mass_afterprojection_max'', Fin wm)]))"

text \<open>
  Lines 199-209: the metric of the epoch, on the top-\<open>k\<close> thresholding of the weights.
  \<open>topk\<close> raises when \<open>k\<close> is negative or exceeds the number of weights; calling
  \<open>self.metric\<close> raises when it is \<open>None\<close> or a string.
\<close>

definition epoch_metric :: "env \<Rightarrow> prbcd \<Rightarrow> rat list \<Rightarrow> int \<Rightarrow> error + fval" where
  "epoch_metric E self w num_budgets' =
     (if num_budgets' < 0 \<or> int (length w) < num_budgets'
      then Inl (RuntimeError ''selected index k out of range'')
      else case block_edge_index self of
        None \<Rightarrow> Inl (AttributeError ''NoneType object has no attribute size'')
      | Some bei \<Rightarrow>
         (case metric self of
            None \<Rightarrow> Inl (TypeError ''NoneType object is not callable'')
          | Some (Str _) \<Rightarrow> Inl (TypeError ''str object is not callable'')
          | Some f \<Rightarrow> surrogate_metric E f bei (topk_mask w (nat num_budgets'))))"

text \<open>Lines 213-217: the best epoch so far is replaced on a strictly greater metric only.\<close>

definition save_best :: "prbcd \<Rightarrow> fval \<Rightarrow> prbcd" where
  "save_best self m =
     (if fgt m (best_metric self)
      then self\<lparr>best_metric := m,
                best_block := current_block self,
                best_edge_index := block_edge_index self,
                best_pert_edge_weight := block_edge_weight self\<rparr>
      else self)"

text \<open>
  Lines 220-228: the block is resampled before epoch \<open>epochs_resampling - 1\<close>; at that
  epoch the best block is retrieved, which raises when no epoch has stored one.
\<close>

definition resample_or_retrieve :: "env \<Rightarrow> prbcd \<Rightarrow> int \<Rightarrow> int \<Rightarrow> error + prbcd" where
  "resample_or_retrieve E self epoch num_budgets' =
     (if epoch < epochs_resampling self - 1
      then (case (current_block self, block_edge_index self, block_edge_weight self) of
              (Some cb, Some bei, Some w) \<Rightarrow>
                (let (cb', bei', w') = resample_random_block E epoch num_budgets' (cb, bei, w)
                 in Inr (self\<lparr>current_block := Some cb',
                              block_edge_index := Some bei',
                              block_edge_weight := Some w'\<rparr>))
            | _ \<Rightarrow> Inl (TypeError ''argsort(): argument input must be Tensor, not NoneType''))
      else if epoch = epochs_resampling self - 1
      then (case (best_block self, best_edge_index self, best_pert_edge_weight self) of
              (Some bb, Some bei, Some bw) \<Rightarrow>
                Inr (self\<lparr>current_block := Some bb,
                          block_edge_index := Some bei,
                          block_edge_weight := Some bw\<rparr>)
            | _ \<Rightarrow> Inl (AttributeError ''PRBCDAttack object has no attribute best_block''))
      else Inr self)"

text \<open>
  Lines 169-231. \<open>update\<close> returns the scalars of the epoch and the attacker. Without
  early stopping it returns right after the projection.
\<close>

definition update :: "env \<Rightarrow> prbcd \<Rightarrow> int \<Rightarrow> rat list \<Rightarrow> int \<Rightarrow> error + scalars_t \<times> prbcd" where
  "update E self epoch gradient num_budgets' =
     (case block_edge_weight self of
        None \<Rightarrow> Inl (AttributeError ''NoneType object has no attribute data'')
      | Some w0 \<Rightarrow>
         (let w1 = update_edge_weights E num_budgets' epoch gradient w0;
              pmass_update = map (clip 0 1) w1;
              w2 = project num_budgets' w1 (eps (coeffs self));
              self1 = self\<lparr>block_edge_weight := Some w2\<rparr>
          in case monitoring pmass_update w2 (eps (coeffs self)) of
               Inl e \<Rightarrow> Inl e
             | Inr scalars \<Rightarrow>
                if \<not> with_early_stopping (coeffs self) then Inr (scalars, self1)
                else
                 (case epoch_metric E self1 w2 num_budgets' of
                    Inl e \<Rightarrow> Inl e
                  | Inr m \<Rightarrow>
                     (case resample_or_retrieve E (save_best self1 m) epoch num_budgets' of
                        Inl e \<Rightarrow> Inl e
                      | Inr self2 \<Rightarrow> Inr (scalars @ [(''metric'', m)], self2)))))"

subsection \<open>attack\<close>

text \<open>
  Modelled from the spec: \<open>_append_statistics\<close> (\<open>RBCDAttack\<close>) is not among the source
  files. The statistics log is an append-only ordered sequence of per-epoch scalar
  records.
\<close>

definition append_statistics :: "prbcd \<Rightarrow> scalars_t \<Rightarrow> prbcd" where
  "append_statistics self scalars = self\<lparr>attack_statistics := attack_statistics self @ [scalars]\<rparr>"

text \<open>Lines 161-167: the initial block, and the epochs \<open>range(epochs)\<close>.\<close>

definition prepare :: "env \<Rightarrow> prbcd \<Rightarrow> int \<Rightarrow> int \<Rightarrow> nat list \<times> prbcd" where
  "prepare E self num_budgets' epochs =
     (let (cb, bei, w) = sample_random_block E num_budgets'
      in ([0..<nat epochs],
          self\<lparr>current_block := Some cb, block_edge_index := Some bei,
               block_edge_weight := Some w\<rparr>))"

text \<open>Lines 136-145: the loop over the epochs.\<close>

fun epoch_loop :: "env \<Rightarrow> int \<Rightarrow> nat list \<Rightarrow> prbcd \<Rightarrow> error + prbcd" where
  "epoch_loop E num_budgets' [] self = Inr self"
| "epoch_loop E num_budgets' (step # steps) self =
     (case compute_gradients E self of
        Inl e \<Rightarrow> Inl e
      | Inr (loss', gradient) \<Rightarrow>
         (case update E self (int step) gradient num_budgets' of
            Inl e \<Rightarrow> Inl e
          | Inr (scalars, self') \<Rightarrow>
             epoch_loop E num_budgets' steps
               (append_statistics self' (scalars @ [(''loss'', loss')]))))"

text \<open>
  Lines 233-249: with early stopping the best block is retrieved first, which raises
  when no epoch has stored one.
\<close>

definition get_flipped_edges :: "env \<Rightarrow> prbcd \<Rightarrow> error + (int \<times> int) list \<times> prbcd" where
  "get_flipped_edges E self =
     (if with_early_stopping (coeffs self)
      then (case (best_block self, best_edge_index self, best_pert_edge_weight self) of
              (Some bb, Some bei, Some bw) \<Rightarrow>
                (let self' = self\<lparr>current_block := Some bb, block_edge_index := Some bei,
                                  block_edge_weight := Some bw\<rparr>
                 in Inr (sample_final_edges E self', self'))
            | _ \<Rightarrow> Inl (AttributeError ''PRBCDAttack object has no attribute best_block''))
      else Inr (sample_final_edges E self, self))"

text \<open>
  Modelled from the spec: \<open>add_edge\<close> and \<open>remove_edge\<close> belong to the flip attacker,
  which is not among the source files. The spec's \<open>recordEdgeEdit(u, v, iterationIndex,
  kind)\<close> inserts or overwrites the ledger entry for the key \<open>(u, v)\<close>.
\<close>

definition ledger_put :: "((int \<times> int) \<times> nat) list \<Rightarrow> int \<times> int \<Rightarrow> nat \<Rightarrow> ((int \<times> int) \<times> nat) list" where
  "ledger_put l k it =
     (if k \<in> fst ` set l then map (\<lambda>kv. if fst kv = k then (k, it) else kv) l
      else l @ [(k, it)])"

definition add_edge :: "prbcd \<Rightarrow> int \<Rightarrow> int \<Rightarrow> nat \<Rightarrow> prbcd" where
  "add_edge self u v it = self\<lparr>priv_added_edges := ledger_put (priv_added_edges self) (u, v) it\<rparr>"

definition remove_edge :: "prbcd \<Rightarrow> int \<Rightarrow> int \<Rightarrow> nat \<Rightarrow> prbcd" where
  "remove_edge self u v it =
     self\<lparr>priv_removed_edges := ledger_put (priv_removed_edges self) (u, v) it\<rparr>"

text \<open>Lines 153-157: every flipped edge is removed when the graph has it, added otherwise.\<close>

fun apply_flips :: "env \<Rightarrow> nat \<Rightarrow> (int \<times> int) list \<Rightarrow> prbcd \<Rightarrow> prbcd" where
  "apply_flips E it [] self = self"
| "apply_flips E it ((u, v) # rest) self =
     apply_flips E (Suc it) rest
       (if 0 < adjacency_matrix E u v then remove_edge self u v it else add_edge self u v it)"

text \<open>Lines 147-159: the flipped edges, the check of their number, and the ledger.\<close>

definition attack_finish :: "env \<Rightarrow> prbcd \<Rightarrow> error + prbcd" where
  "attack_finish E self =
     (case get_flipped_edges E self of
        Inl e \<Rightarrow> Inl e
      | Inr (flipped_edges, self') \<Rightarrow>
          if \<not> int (length flipped_edges) \<le> prbcd_num_budgets self'
          then Inl (AssertionError ''# perturbed edges exceeds num_budgets'')
          else Inr (apply_flips E 0 flipped_edges self'))"

text \<open>Lines 100-106: the loss function for the name passed as \<open>loss\<close>.\<close>

definition select_loss :: "loss_arg \<Rightarrow> error + py_fn" where
  "select_loss l =
     (if l \<notin> {LossStr ''mce'', LossStr ''prob_margin'', LossStr ''tanh_margin''}
      then Inl (AssertionError ''loss in [mce, prob_margin, tanh_margin]'')
      else if l = LossStr ''mce'' then Inr Masked_cross_entropy
      else if l = LossStr ''prob_margin'' then Inr Probability_margin_loss
      else Inr Tanh_margin_loss)"

text \<open>Lines 93-133: the configuration of the attacker before the epochs.\<close>

definition attack_setup :: "env \<Rightarrow> prbcd \<Rightarrow> attack_args \<Rightarrow> error + prbcd" where
  "attack_setup E self args =
     (case super_attack E self args of
        Inl e \<Rightarrow> Inl e
      | Inr self1 \<Rightarrow>
         (case select_loss (arg_loss args) of
            Inl e \<Rightarrow> Inl e
          | Inr f \<Rightarrow>
             Inr (self1\<lparr>
                block_size := arg_block_size args,
                loss := Some f,
                metric := (case arg_metric args of None \<Rightarrow> Some f | Some m \<Rightarrow> Some m),
                epochs_resampling := arg_epochs_resampling args,
                lr := arg_lr args,
                coeffs := merge_kwargs (coeffs self1) (arg_kwargs args),
                victim_nodes := Some (arg_target args),
                victim_labels := Some (target_label self1)\<rparr>)))"

text \<open>Lines 93-145: the configuration, the initial block and the epochs.\<close>

definition attack_epochs :: "env \<Rightarrow> prbcd \<Rightarrow> attack_args \<Rightarrow> error + prbcd" where
  "attack_epochs E self args =
     (case attack_setup E self args of
        Inl e \<Rightarrow> Inl e
      | Inr self1 \<Rightarrow>
         (let num_budgets' = prbcd_num_budgets self1;
              (steps, self2) = prepare E self1 num_budgets' (arg_epochs args)
          in epoch_loop E num_budgets' steps self2))"

text \<open>Lines 74-159: \<open>attack\<close>, the epochs followed by the flips.\<close>

definition prbcd_attack :: "env \<Rightarrow> prbcd \<Rightarrow> attack_args \<Rightarrow> error + prbcd" where
  "prbcd_attack E self args =
     (case attack_epochs E self args of
        Inl e \<Rightarrow> Inl e
      | Inr self3 \<Rightarrow> attack_finish E self3)"

section \<open>Example inputs\<close>

text \<open>
  A path graph on five nodes with two features per node, and an attacker on it that has
  been set up and reset.
\<close>

definition path_graph :: graph_data where
  "path_graph =
     Data (Tensor [5, 2] [- 1 / 2, 1, 1 / 2, 0, 2, 1, 0, 0, 1 / 4, 3 / 4])
          ([0, 1, 1, 2, 2, 3, 3, 4], [1, 0, 2, 1, 3, 2, 4, 3])"

definition path_attacker :: injection_attacker where
  "path_attacker =
     \<lparr>obj_id = 0, priv_is_setup = True, priv_is_reset = True, ori_data = path_graph,
      num_nodes = 5, num_feats = 2, feat = Some (data_x path_graph),
      priv_degree = [1, 2, 2, 2, 1], targets = [],
      num_budgets = None, feat_limits = None, feat_budgets = None,
      num_edges_global = None, num_edges_local = None,
      priv_mu = 0, priv_sigma = 0,
      priv_injected_nodes = [], priv_injected_edges = [], priv_injected_feats = []\<rparr>"

text \<open>
  A three-node graph with the edge \<open>0 - 1\<close>, and stand-ins for the collaborators of
  \<open>PRBCDAttack\<close>: the base attack stores the budget and the target label; the first
  block holds the candidate edges \<open>(0,1)\<close>, \<open>(0,2)\<close>, \<open>(1,2)\<close> with weight \<open>1/100\<close>;
  resampling drops the first candidate and draws \<open>(2,0)\<close>; the gradient is constant and
  the gradient step adds it; the metric is the mass of the thresholded weights; the
  final sample takes the first \<open>num_budgets\<close> candidates.
\<close>

definition demo_env :: env where
  "demo_env =
     \<lparr>super_attack = (\<lambda>self args. Inr (self\<lparr>
          prbcd_num_budgets := (case arg_num_budgets args of None \<Rightarrow> 1 | Some n \<Rightarrow> n),
          target_label := (case arg_target_label args of None \<Rightarrow> [0] | Some l \<Rightarrow> l)\<rparr>)),
      sample_random_block = (\<lambda>nb. ([1, 2, 5], ([0, 0, 1], [1, 2, 2]), [1 / 100, 1 / 100, 1 / 100])),
      resample_random_block = (\<lambda>epoch nb (cb, (src, dst), w).
          (tl cb @ [6], (tl src @ [2], tl dst @ [0]), tl w @ [1 / 100])),
      compute_gradients = (\<lambda>self. Inr (Fin 0, [1 / 10, 1 / 5, 0])),
      update_edge_weights = (\<lambda>nb epoch g w. map (\<lambda>(x, y). x + y) (zip w g)),
      surrogate_metric = (\<lambda>f bei w. Inr (Fin (sum_list w))),
      sample_final_edges = (\<lambda>self.
          (case block_edge_index self of
             None \<Rightarrow> []
           | Some (src, dst) \<Rightarrow> take (nat (prbcd_num_budgets self)) (zip src dst))),
      adjacency_matrix = (\<lambda>u v. if (u, v) = (0, 1) \<or> (u, v) = (1, 0) then 1 else 0)\<rparr>"

definition demo_prbcd :: prbcd where
  "demo_prbcd =
     \<lparr>current_block = None, block_edge_index = None, block_edge_weight = None,
      loss = None, metric = None, victim_nodes = None, victim_labels = None,
      edge_index = ([0, 1], [1, 0]), priv_edge_index = ([0, 1], [1, 0]),
      priv_edge_weight = [1, 1], best_metric = NegInf,
      best_block = None, best_edge_index = None, best_pert_edge_weight = None,
      attack_statistics = [], block_size = 0, epochs_resampling = 0, lr = 0,
      coeffs = \<lparr>eps = 1 / 10000000, with_early_stopping = True\<rparr>,
      prbcd_num_budgets = 0, target_label = [],
      priv_added_edges = [], priv_removed_edges = []\<rparr>"

definition demo_args :: attack_args where
  "demo_args =
     \<lparr>arg_target = [2], arg_target_label = None, arg_num_budgets = Some 1,
      arg_direct_attack = True, arg_block_size = 3, arg_epochs = 2,
      arg_epochs_resampling = 2, arg_loss = LossStr ''tanh_margin'', arg_metric = None,
      arg_lr = 2000, arg_structure_attack = True, arg_feature_attack = False,
      arg_kwargs = \<lparr>kw_eps = None, kw_with_early_stopping = None\<rparr>\<rparr>"


section \<open>Properties of InjectionAttacker\<close>

lemmas attack_eval =
  attack_def path_attacker_def path_graph_def check_budget_def resolve_targets_def
  resolve_num_edges_local_def unpack_feat_limits_def resolve_min_limits_def
  resolve_max_limits_def tensor_min_def tensor_max_def dict_pop_def Let_def

subsection \<open>Feature limits\<close>

text \<open>
  C5. The resolution of the feature constraint in \<open>attack\<close>: a bound the caller supplies
  should become the bound in force. It does not: lines 166-174 keep the observed
  minimum and maximum for an unset bound, but replace a supplied bound by the constants
  \<open>0.\<close> and \<open>1.\<close> of the \<open>else\<close> branches. With \<open>feat_limits = (2, 5)\<close>, as a tuple or as
  a dict, the attacker ends with \<open>feat_limits = (0, 1)\<close>.
\<close>

theorem attack_supplied_limits_replaced:
  "map_sum id feat_limits
     (fst (attack path_attacker (IntBudget 1) None None (Some 2)
             (Some (TupleLimits (Some 2) (Some 5))) None)) = Inr (Some (0, 1))
   \<and> map_sum id feat_limits
     (fst (attack path_attacker (IntBudget 1) None None (Some 2)
             (Some (DictLimits [(''min'', Some 2), (''max'', Some 5)])) None)) = Inr (Some (0, 1))"
  by (simp add: attack_eval)

subsection \<open>Edges per injected node\<close>

text \<open>
  C6, as the claim states it, at the path graph: the mean degree is \<open>8/5\<close>, and with
  neither \<open>num_edges_local\<close> nor \<open>num_edges_global\<close> the attack takes 1 edge per node,
  whereas the rounded mean, clamped to at least 1, is 2.
\<close>

theorem edge_count_round_counterexample:
  "map_sum id num_edges_local
     (fst (attack path_attacker (IntBudget 1) None None None None None)) = Inr (Some 1)
   \<and> sum_list (priv_degree path_attacker) / of_nat (length (priv_degree path_attacker)) = 8 / 5
   \<and> max 1 (round (8 / 5 :: rat)) = 2"
  by (simp add: attack_eval round_def floor_eq_iff)

text \<open>
  C6, amended. For an attacker that is set up and reset and a budget that resolves:
  with both \<open>num_edges_local\<close> and \<open>num_edges_global\<close> the attack fails; with
  \<open>num_edges_global\<close> alone the local count is its floor quotient by the number of
  targets, and a zero quotient fails with the ValueError; with neither, the local count
  is the mean degree clamped to at least 1 and then truncated to an integer (not
  rounded).
\<close>

theorem edge_count_resolution:
  assumes "priv_is_setup self" and "priv_is_reset self"
    and "check_budget b (num_nodes self) = Inr nb"
  shows "(l \<noteq> None \<and> g \<noteq> None \<longrightarrow>
            fst (attack self b t g l fl fb) =
              Inl (RuntimeError
                ''Both num_edges_local and num_edges_global cannot be used simultaneously''))
       \<and> (l = None \<and> g = Some n \<and> resolve_targets (num_nodes self) t \<noteq> []
            \<and> n div int (length (resolve_targets (num_nodes self) t)) = 0 \<longrightarrow>
            fst (attack self b t g l fl fb) =
              Inl (ValueError ''Too less edges allowed for injected nodes''))
       \<and> (l = None \<and> g = Some n \<and> attack self b t g l fl fb = (Inr self', fl') \<longrightarrow>
            n div int (length (resolve_targets (num_nodes self) t)) \<noteq> 0
            \<and> num_edges_local self' =
                Some (n div int (length (resolve_targets (num_nodes self) t))))
       \<and> (l = None \<and> g = None \<and> attack self b t g l fl fb = (Inr self', fl') \<longrightarrow>
            num_edges_local self' =
              Some \<lfloor>max 1 (sum_list (priv_degree self) / of_nat (length (priv_degree self)))\<rfloor>)"
  using assms
  by (auto simp: attack_def resolve_num_edges_local_def Let_def
           split: sum.splits option.splits if_splits prod.splits)

text \<open>
  The amended claim on 25 targets: both counts fail, \<open>num_edges_global = 10\<close> fails
  with the ValueError, and \<open>num_edges_global = 100\<close> gives 4 edges per node.
\<close>

theorem edge_count_resolution_witness:
  "fst (attack (path_attacker\<lparr>num_nodes := 25\<rparr>) (IntBudget 1) None (Some 100) (Some 2) None None)
     = Inl (RuntimeError
         ''Both num_edges_local and num_edges_global cannot be used simultaneously'')
   \<and> fst (attack (path_attacker\<lparr>num_nodes := 25\<rparr>) (IntBudget 1) None (Some 10) None None None)
     = Inl (ValueError ''Too less edges allowed for injected nodes'')
   \<and> map_sum id num_edges_local
       (fst (attack (path_attacker\<lparr>num_nodes := 25\<rparr>) (IntBudget 1) None (Some 100) None None None))
     = Inr (Some 4)"
proof -
  let ?A = "path_attacker\<lparr>num_nodes := 25\<rparr>"
  have h1: "priv_is_setup ?A" and h2: "priv_is_reset ?A"
    by (simp_all add: path_attacker_def)
  have h3: "check_budget (IntBudget 1) (num_nodes ?A) = Inr 1"
    by (simp add: check_budget_def)
  have len: "length (resolve_targets (num_nodes ?A) None) = 25"
    by (simp add: resolve_targets_def)
  have ok: "\<exists>s d. attack ?A (IntBudget 1) None (Some 100) None None None = (Inr s, d)"
    by (simp add: attack_eval)
  then obtain s d where sd: "attack ?A (IntBudget 1) None (Some 100) None None None = (Inr s, d)"
    by blast
  from edge_count_resolution [OF h1 h2 h3, where l = "Some 2" and g = "Some 100" and t = None
      and fl = None and fb = None]
  have a: "fst (attack ?A (IntBudget 1) None (Some 100) (Some 2) None None)
     = Inl (RuntimeError
         ''Both num_edges_local and num_edges_global cannot be used simultaneously'')"
    by simp
  from edge_count_resolution [OF h1 h2 h3, where l = None and g = "Some 10" and n = 10
      and t = None and fl = None and fb = None]
  have b: "fst (attack ?A (IntBudget 1) None (Some 10) None None None)
     = Inl (ValueError ''Too less edges allowed for injected nodes'')"
    unfolding len by (simp add: resolve_targets_def)
  from edge_count_resolution [OF h1 h2 h3, where l = None and g = "Some 100" and n = 100
      and t = None and fl = None and fb = None and self' = s and fl' = d] sd
  have c: "num_edges_local s = Some 4"
    unfolding len by simp
  show ?thesis
    using a b c sd by simp
qed

subsection \<open>The caller's dict\<close>

text \<open>
  C10. When \<open>attack\<close> succeeds on a dict passed as \<open>feat_limits\<close>, the caller's dict is
  empty afterwards: \<open>pop\<close> removed \<open>min\<close> and \<open>max\<close> from it, and any other key would
  have raised. A second call that is handed the same object reads both bounds as unset,
  leaves the dict as it is, and takes the observed minimum and maximum of the features.
\<close>

theorem attack_pops_dict:
  assumes "attack self b t g l (Some (DictLimits d)) fb = (Inr self', fl')"
    and "attack self2 b2 t2 g2 l2 fl' fb2 = (Inr self2', fl'')"
  shows "fl' = Some (DictLimits [])
       \<and> unpack_feat_limits fl' = (Inr (None, None), fl')
       \<and> fl'' = fl'
       \<and> (\<exists>ft mn mx. feat self2 = Some ft \<and> tensor_min ft = Inr mn \<and> tensor_max ft = Inr mx
            \<and> feat_limits self2' = Some (mn, mx))"
proof -
  have 1: "fl' = Some (DictLimits [])"
    using assms(1)
    by (auto simp: attack_def unpack_feat_limits_def Let_def
           split: sum.splits option.splits if_splits prod.splits)
  have 2: "unpack_feat_limits (Some (DictLimits [])) = (Inr (None, None), Some (DictLimits []))"
    by (simp add: unpack_feat_limits_def dict_pop_def)
  show ?thesis
    using assms(2) unfolding 1
    by (auto simp: attack_def 2 Let_def resolve_min_limits_def resolve_max_limits_def
           split: sum.splits option.splits if_splits prod.splits)
qed

text \<open>
  On the path graph: the dict \<open>{'min': 1/4, 'max': 3/2}\<close> comes back empty, and the
  second call with it resolves the limits to the observed \<open>(-1/2, 2)\<close>.
\<close>

theorem attack_pops_dict_witness:
  "snd (attack path_attacker (IntBudget 1) None None (Some 2)
          (Some (DictLimits [(''min'', Some (1 / 4)), (''max'', Some (3 / 2))])) None)
     = Some (DictLimits [])
   \<and> map_sum id feat_limits
       (fst (attack path_attacker (IntBudget 1) None None (Some 2) (Some (DictLimits [])) None))
     = Inr (Some (- 1 / 2, 2))"
proof -
  let ?d = "[(''min'', Some (1 / 4 :: rat)), (''max'', Some (3 / 2))]"
  obtain s1 f1 where c1:
    "attack path_attacker (IntBudget 1) None None (Some 2) (Some (DictLimits ?d)) None = (Inr s1, f1)"
    by (simp add: attack_eval)
  have e: "f1 = Some (DictLimits [])"
    using c1 by (simp add: attack_eval)
  obtain s2 f2 where c2:
    "attack path_attacker (IntBudget 1) None None (Some 2) f1 None = (Inr s2, f2)"
    unfolding e by (simp add: attack_eval)
  from attack_pops_dict [OF c1 c2]
  have "f1 = Some (DictLimits [])"
    and "\<exists>ft mn mx. feat path_attacker = Some ft \<and> tensor_min ft = Inr mn
           \<and> tensor_max ft = Inr mx \<and> feat_limits s2 = Some (mn, mx)"
    by blast+
  then have "f1 = Some (DictLimits [])" and "feat_limits s2 = Some (- 1 / 2, 2)"
    by (auto simp: path_attacker_def path_graph_def tensor_min_def tensor_max_def)
  then show ?thesis
    using c1 c2 by simp
qed

subsection \<open>Accessors of a fresh attacker\<close>

text \<open>
  C8. Right after \<open>reset\<close>, \<open>injected_nodes()\<close>, \<open>injected_edges()\<close> and
  \<open>injected_feats()\<close> return \<open>None\<close>, but \<open>data\<close> fails, however it is called: it hands
  the \<open>None\<close> of \<open>injected_feats()\<close> to \<open>torch.cat\<close>, which raises the TypeError,
  whatever \<open>add_edges\<close> would do and whatever the cache held before the reset.
\<close>

theorem data_after_reset_fails:
  "injected_nodes (fst (reset self cache)) = None
   \<and> injected_edges (fst (reset self cache)) = None
   \<and> injected_feats (fst (reset self cache)) = Inr None
   \<and> fst (data add_edges (fst (reset self cache)) (snd (reset self cache)) form) =
       Inl (TypeError ''expected Tensor as element 1 in argument 0, but got NoneType'')"
  by (simp add: injected_nodes_def injected_edges_def injected_feats_def data_def
        reset_def attacker_reset_def cat0_def)

subsection \<open>Generated features under a flip budget\<close>

text \<open>
  C9. With three features and a flip budget of 1, \<open>inject_node(node)\<close> either fills the
  whole row (the permutation starts with 0: three entries are 1, two more than the
  budget) or raises IndexError (it starts with another index): the zero tensor has shape
  \<open>[1, 3]\<close> and the indices address its first dimension.
\<close>

theorem inject_node_budget_row:
  "map_sum id priv_injected_feats
     (inject_node (path_attacker\<lparr>num_feats := 3, feat_budgets := Some 1\<rparr>) [0, 2, 1] [] 5 None)
     = Inr [Tensor [1, 3] [1, 1, 1]]
   \<and> inject_node (path_attacker\<lparr>num_feats := 3, feat_budgets := Some 1\<rparr>) [2, 0, 1] [] 5 None
     = Inl (IndexError ''index out of range'')"
  by (simp add: inject_node_def path_attacker_def path_graph_def new_zeros_def index_put_def
        fill_slice_def Let_def eval_nat_numeral)

section \<open>Properties of PRBCDAttack\<close>

subsection \<open>Auxiliary facts\<close>


lemma fgt_irrefl: "\<not> fgt a a"
  by (cases a) auto

lemma save_best_fields:
  "current_block (save_best s m) = current_block s"
  "block_edge_index (save_best s m) = block_edge_index s"
  "block_edge_weight (save_best s m) = block_edge_weight s"
  "epochs_resampling (save_best s m) = epochs_resampling s"
  "loss (save_best s m) = loss s"
  "metric (save_best s m) = metric s"
  "prbcd_num_budgets (save_best s m) = prbcd_num_budgets s"
  "coeffs (save_best s m) = coeffs s"
  by (simp_all add: save_best_def)

lemma resample_or_retrieve_best:
  assumes "resample_or_retrieve E s epoch nb = Inr s'"
  shows "best_metric s' = best_metric s" "best_block s' = best_block s"
    "best_edge_index s' = best_edge_index s" "best_pert_edge_weight s' = best_pert_edge_weight s"
    "loss s' = loss s" "metric s' = metric s" "prbcd_num_budgets s' = prbcd_num_budgets s"
    "coeffs s' = coeffs s"
  using assms
  by (auto simp: resample_or_retrieve_def Let_def split: if_splits option.splits prod.splits)




lemma update_keeps:
  assumes "update E self epoch gradient nb = Inr (scalars, self')"
  shows "loss self' = loss self \<and> metric self' = metric self
       \<and> prbcd_num_budgets self' = prbcd_num_budgets self \<and> coeffs self' = coeffs self"
proof (cases "with_early_stopping (coeffs self)")
  case False
  with assms show ?thesis
    by (auto simp: update_def Let_def split: option.splits sum.splits)
next
  case True
  from assms True obtain w2 m where
    rr: "resample_or_retrieve E (save_best (self\<lparr>block_edge_weight := Some w2\<rparr>) m) epoch nb = Inr self'"
    by (auto simp: update_def Let_def split: option.splits sum.splits if_splits)
  from resample_or_retrieve_best(5-8)[OF rr] show ?thesis
    by (simp add: save_best_fields)
qed

lemma epoch_loop_keeps:
  "epoch_loop E nb steps self = Inr self' \<Longrightarrow>
   loss self' = loss self \<and> metric self' = metric self
   \<and> prbcd_num_budgets self' = prbcd_num_budgets self \<and> coeffs self' = coeffs self"
proof (induction steps arbitrary: self)
  case Nil
  then show ?case by simp
next
  case (Cons step steps)
  from Cons.prems obtain l g sc s1 where
    u: "update E self (int step) g nb = Inr (sc, s1)"
    and r: "epoch_loop E nb steps (append_statistics s1 (sc @ [(''loss'', l)])) = Inr self'"
    by (auto split: sum.splits prod.splits)
  from Cons.IH[OF r] update_keeps[OF u] show ?case
    by (simp add: append_statistics_def)
qed

lemma apply_flips_keeps:
  "loss (apply_flips E it fl s) = loss s \<and> metric (apply_flips E it fl s) = metric s
   \<and> prbcd_num_budgets (apply_flips E it fl s) = prbcd_num_budgets s"
  by (induction E it fl s rule: apply_flips.induct) (simp_all add: add_edge_def remove_edge_def)

lemma get_flipped_edges_keeps:
  "get_flipped_edges E s = Inr (fl, s') \<Longrightarrow>
   loss s' = loss s \<and> metric s' = metric s \<and> prbcd_num_budgets s' = prbcd_num_budgets s"
  by (auto simp: get_flipped_edges_def Let_def split: if_splits option.splits)

lemma attack_finish_keeps:
  "attack_finish E s = Inr s' \<Longrightarrow> loss s' = loss s \<and> metric s' = metric s"
  by (auto simp: attack_finish_def apply_flips_keeps split: sum.splits prod.splits if_splits
           dest: get_flipped_edges_keeps)

lemma attack_epochs_keeps:
  assumes "attack_setup E self args = Inr s1" and "attack_epochs E self args = Inr s3"
  shows "loss s3 = loss s1 \<and> metric s3 = metric s1"
proof -
  obtain steps s2 where p: "prepare E s1 (prbcd_num_budgets s1) (arg_epochs args) = (steps, s2)"
    by (cases "prepare E s1 (prbcd_num_budgets s1) (arg_epochs args)") auto
  then have k: "loss s2 = loss s1" "metric s2 = metric s1"
    by (auto simp: prepare_def Let_def split: prod.splits)
  from assms p have "epoch_loop E (prbcd_num_budgets s1) steps s2 = Inr s3"
    by (simp add: attack_epochs_def Let_def)
  from epoch_loop_keeps[OF this] k show ?thesis by simp
qed

lemma clip01_bounds: "0 \<le> clip 0 1 x \<and> clip 0 1 x \<le> 1"
  by (simp add: clip_def)


lemma shifted_mass_Nil: "shifted_mass [] mu = 0"
  by (simp add: shifted_mass_def)

lemma shifted_mass_Cons: "shifted_mass (x # w) mu = clip 0 1 (x - mu) + shifted_mass w mu"
  by (simp add: shifted_mass_def)

lemma shifted_mass_nonneg: "0 \<le> shifted_mass w mu"
  by (induction w) (simp_all add: shifted_mass_Nil shifted_mass_Cons clip01_bounds)








lemma demo_completes: "\<not> isl (prbcd_attack demo_env demo_prbcd demo_args)"
  by code_simp

lemma demo_completes_callable_metric:
  "\<not> isl (prbcd_attack demo_env demo_prbcd (demo_args\<lparr>arg_metric := Some (Callable 7)\<rparr>))"
  by code_simp



subsection \<open>The projection\<close>




subsection \<open>The number of flipped edges\<close>



subsection \<open>Resampling and the best state\<close>






subsection \<open>Loss and metric\<close>

text \<open>
  C7, as the claim states it: a callable passed as \<open>loss\<close> fails the assertion of
  line 100.
\<close>

theorem attack_loss_selection_counterexample:
  "prbcd_attack demo_env demo_prbcd (demo_args\<lparr>arg_loss := LossCallable 0\<rparr>)
     = Inl (AssertionError ''loss in [mce, prob_margin, tanh_margin]'')"
  by (simp add: prbcd_attack_def attack_epochs_def attack_setup_def select_loss_def
        demo_env_def demo_args_def)

text \<open>
  C7, amended. \<open>loss\<close> must be one of the three names: once the base attack has
  succeeded any other value, a callable included, fails the assertion. When \<open>attack\<close>
  completes, \<open>self.loss\<close> is the function the name selects, and \<open>self.metric\<close> is that
  loss when \<open>metric\<close> is \<open>None\<close> and the object passed as \<open>metric\<close> otherwise; only
  \<open>metric\<close> admits the caller's callable.
\<close>

theorem attack_loss_selection:
  "(arg_loss args \<notin> {LossStr ''mce'', LossStr ''prob_margin'', LossStr ''tanh_margin''}
      \<and> super_attack E self args = Inr self1 \<longrightarrow>
      prbcd_attack E self args = Inl (AssertionError ''loss in [mce, prob_margin, tanh_margin]''))
   \<and> (prbcd_attack E self args = Inr self' \<longrightarrow>
        (arg_loss args = LossStr ''mce'' \<and> loss self' = Some Masked_cross_entropy
         \<or> arg_loss args = LossStr ''prob_margin'' \<and> loss self' = Some Probability_margin_loss
         \<or> arg_loss args = LossStr ''tanh_margin'' \<and> loss self' = Some Tanh_margin_loss)
        \<and> metric self' = (case arg_metric args of None \<Rightarrow> loss self' | Some m \<Rightarrow> Some m))"
proof -
  have p1: "prbcd_attack E self args = Inl (AssertionError ''loss in [mce, prob_margin, tanh_margin]'')"
    if "arg_loss args \<notin> {LossStr ''mce'', LossStr ''prob_margin'', LossStr ''tanh_margin''}
      \<and> super_attack E self args = Inr self1"
    using that
    by (simp add: prbcd_attack_def attack_epochs_def attack_setup_def select_loss_def)
  have p2: "(arg_loss args = LossStr ''mce'' \<and> loss self' = Some Masked_cross_entropy
         \<or> arg_loss args = LossStr ''prob_margin'' \<and> loss self' = Some Probability_margin_loss
         \<or> arg_loss args = LossStr ''tanh_margin'' \<and> loss self' = Some Tanh_margin_loss)
        \<and> metric self' = (case arg_metric args of None \<Rightarrow> loss self' | Some m \<Rightarrow> Some m)"
    if a: "prbcd_attack E self args = Inr self'"
  proof -
  from a obtain s3 where e: "attack_epochs E self args = Inr s3" and f: "attack_finish E s3 = Inr self'"
    by (auto simp: prbcd_attack_def split: sum.splits)
  from e obtain s1 where s: "attack_setup E self args = Inr s1"
    by (auto simp: attack_epochs_def split: sum.splits)
  from attack_epochs_keeps[OF s e] attack_finish_keeps[OF f]
  have k: "loss self' = loss s1" "metric self' = metric s1" by simp_all
  from s obtain f0 where sl: "select_loss (arg_loss args) = Inr f0"
    and l1: "loss s1 = Some f0"
    and m1: "metric s1 = (case arg_metric args of None \<Rightarrow> Some f0 | Some m \<Rightarrow> Some m)"
    by (auto simp: attack_setup_def split: sum.splits)
  from sl have "arg_loss args = LossStr ''mce'' \<and> f0 = Masked_cross_entropy
         \<or> arg_loss args = LossStr ''prob_margin'' \<and> f0 = Probability_margin_loss
         \<or> arg_loss args = LossStr ''tanh_margin'' \<and> f0 = Tanh_margin_loss"
    by (auto simp: select_loss_def split: if_splits)
  with k l1 m1 show ?thesis
    by (auto split: option.splits)
  qed
  from p1 p2 show ?thesis by blast
qed

text \<open>
  On the example: \<open>tanh_margin\<close> selects \<open>tanh_margin_loss\<close> for the loss and the metric,
  a callable metric is kept, and the loss name \<open>hinge\<close> fails.
\<close>

theorem attack_loss_selection_witness:
  "map_sum id (\<lambda>s. (loss s, metric s)) (prbcd_attack demo_env demo_prbcd demo_args)
     = Inr (Some Tanh_margin_loss, Some Tanh_margin_loss)
   \<and> map_sum id (\<lambda>s. (loss s, metric s))
       (prbcd_attack demo_env demo_prbcd (demo_args\<lparr>arg_metric := Some (Callable 7)\<rparr>))
     = Inr (Some Tanh_margin_loss, Some (Callable 7))
   \<and> prbcd_attack demo_env demo_prbcd (demo_args\<lparr>arg_loss := LossStr ''hinge''\<rparr>)
     = Inl (AssertionError ''loss in [mce, prob_margin, tanh_margin]'')"
proof -
  obtain s where a: "prbcd_attack demo_env demo_prbcd demo_args = Inr s"
    using demo_completes by (cases "prbcd_attack demo_env demo_prbcd demo_args") auto
  obtain s' where b:
    "prbcd_attack demo_env demo_prbcd (demo_args\<lparr>arg_metric := Some (Callable 7)\<rparr>) = Inr s'"
    using demo_completes_callable_metric
    by (cases "prbcd_attack demo_env demo_prbcd (demo_args\<lparr>arg_metric := Some (Callable 7)\<rparr>)") auto
  from attack_loss_selection [of demo_args demo_env demo_prbcd _ s] a
  have 1: "loss s = Some Tanh_margin_loss \<and> metric s = Some Tanh_margin_loss"
    by (simp add: demo_args_def)
  from attack_loss_selection [of "demo_args\<lparr>arg_metric := Some (Callable 7)\<rparr>" demo_env demo_prbcd _ s'] b
  have 2: "loss s' = Some Tanh_margin_loss \<and> metric s' = Some (Callable 7)"
    by (simp add: demo_args_def)
  have sa: "super_attack demo_env demo_prbcd (demo_args\<lparr>arg_loss := LossStr ''hinge''\<rparr>)
      = Inr (demo_prbcd\<lparr>prbcd_num_budgets := 1, target_label := [0]\<rparr>)"
    by (simp add: demo_env_def demo_args_def)
  from attack_loss_selection [of "demo_args\<lparr>arg_loss := LossStr ''hinge''\<rparr>" demo_env demo_prbcd
      "demo_prbcd\<lparr>prbcd_num_budgets := 1, target_label := [0]\<rparr>"] sa
  have 3: "prbcd_attack demo_env demo_prbcd (demo_args\<lparr>arg_loss := LossStr ''hinge''\<rparr>)
     = Inl (AssertionError ''loss in [mce, prob_margin, tanh_margin]'')"
    by (simp add: demo_args_def)
  from 1 2 3 a b show ?thesis by simp
qed

end
